theory Spec2Isabelle
  imports Complex_Main
begin

section \<open>The relational store\<close>

text \<open>
  The monitor of \<^verbatim>\<open>rsn_status_monitor.py\<close> keeps four tables behind an ORM session.
  The table classes live in \<^verbatim>\<open>model/rsn_status_model.py\<close>; their columns are the ones
  the monitor reads and writes.  A table is the list of its rows in insertion order and
  the primary key of a row is its position in that list: nothing in the monitor updates
  or deletes a row, so positions are stable.  A relationship column holds the position
  of the row it points to.  An object handed to \<^verbatim>\<open>session.add\<close> is appended to its
  table at once: the session flushes pending objects before it runs the next query.

  Errors are values: every \<^verbatim>\<open>raise\<close> the modelled code can reach is a constructor of
  \<open>error\<close>, and a function that can raise returns \<open>error + 'a\<close>.
\<close>

datatype error = ValueError | KeyError | AttributeError | TypeError | RequestException | ZeroDivisionError

datatype health = OPERATIONAL | PARTIAL | FAILURE

text \<open>Modelled from the spec: the columns of the four tables of
  \<^verbatim>\<open>model/rsn_status_model.py\<close>.  Numbers are exact: a rate or a threshold is a
  rational, a particle count an integer, a timestamp a whole number of seconds.\<close>

record ReferenceDesignator =
  rd_name :: string

record ExpectedStream =
  es_name :: string
  es_method :: string
  es_rate :: "rat option"
  warn_interval :: "rat option"
  fail_interval :: "rat option"

record DeployedStream =
  ref_des :: nat
  expected_stream :: nat

record Counts =
  stream :: nat
  particle_count :: int
  timestamp :: int

record store =
  reference_designators :: "ReferenceDesignator list"
  expected_streams :: "ExpectedStream list"
  deployed_streams :: "DeployedStream list"
  counts :: "Counts list"

definition empty_store :: store where
  "empty_store = \<lparr>reference_designators = [], expected_streams = [], deployed_streams = [], counts = []\<rparr>"

text \<open>\<^verbatim>\<open>query(T).filter(P).first()\<close>: the position of the first row that satisfies \<open>P\<close>.\<close>

fun first_index :: "('a \<Rightarrow> bool) \<Rightarrow> 'a list \<Rightarrow> nat option" where
  "first_index P [] = None"
| "first_index P (x # xs) = (if P x then Some 0 else map_option Suc (first_index P xs))"

definition nth_opt :: "'a list \<Rightarrow> nat \<Rightarrow> 'a option" where
  "nth_opt xs i = (if i < length xs then Some (xs ! i) else None)"

text \<open>\<^verbatim>\<open>deployed_stream.expected_stream\<close> and \<^verbatim>\<open>deployed_stream.ref_des\<close>: the rows a
  deployed stream points to (\<open>None\<close> when there is no such row; reading an attribute of it
  then raises \<^verbatim>\<open>AttributeError\<close>).\<close>

definition expected_stream_of :: "store \<Rightarrow> nat \<Rightarrow> ExpectedStream option" where
  "expected_stream_of db deployed_stream =
     (case nth_opt (deployed_streams db) deployed_stream of
        None \<Rightarrow> None
      | Some ds \<Rightarrow> nth_opt (expected_streams db) (expected_stream ds))"

definition ref_des_of :: "store \<Rightarrow> nat \<Rightarrow> ReferenceDesignator option" where
  "ref_des_of db deployed_stream =
     (case nth_opt (deployed_streams db) deployed_stream of
        None \<Rightarrow> None
      | Some ds \<Rightarrow> nth_opt (reference_designators db) (ref_des ds))"

definition add_counts :: "store \<Rightarrow> Counts \<Rightarrow> store" where
  "add_counts db c = db\<lparr>counts := counts db @ [c]\<rparr>"

text \<open>\<^verbatim>\<open>query(Counts).filter(Counts.stream == deployed_stream).order_by(Counts.timestamp.desc())\<close>.
  The database leaves the order of rows with equal timestamps open; here they keep
  their insertion order.\<close>

definition order_by_timestamp_desc :: "Counts list \<Rightarrow> Counts list" where
  "order_by_timestamp_desc cs = sort_key (\<lambda>c. - timestamp c) cs"

definition stream_counts :: "store \<Rightarrow> nat \<Rightarrow> Counts list" where
  "stream_counts db deployed_stream =
     order_by_timestamp_desc (filter (\<lambda>c. stream c = deployed_stream) (counts db))"

section \<open>BaseStatusMonitor\<close>

subsection \<open>\<^verbatim>\<open>last_rate\<close> and \<^verbatim>\<open>status\<close>\<close>

text \<open>\<^verbatim>\<open>Counts.rate\<close> is a method of the table class and not part of the monitor's file:
  \<open>last_rate\<close> and \<open>status\<close> take it as the parameter \<open>rate\<close>.\<close>

definition last_rate :: "(Counts \<Rightarrow> Counts \<Rightarrow> error + rat) \<Rightarrow> store \<Rightarrow> nat \<Rightarrow> error + rat" where
  "last_rate rate db deployed_stream =
     (let cs = take 2 (stream_counts db deployed_stream)
      in if length cs < 2 then Inr 0 else rate (cs ! 0) (cs ! 1))"

text \<open>Modelled from the spec: \<^verbatim>\<open>Counts.rate\<close>, the difference of the particle counts over
  the difference of the timestamps.  The spec gives no value when the timestamps are equal;
  Python's division raises there.\<close>

definition rate_spec :: "Counts \<Rightarrow> Counts \<Rightarrow> error + rat" where
  "rate_spec this prior =
     (if timestamp this = timestamp prior then Inl ZeroDivisionError
      else Inr (of_int (particle_count this - particle_count prior)
                  / of_int (timestamp this - timestamp prior)))"

text \<open>Python's \<^verbatim>\<open>t and rate < t\<close> for a nullable numeric column \<open>t\<close>: \<^verbatim>\<open>None\<close> and \<open>0\<close>
  are false, and the comparison is only made for a threshold that is true.\<close>

definition set_and_below :: "rat option \<Rightarrow> rat \<Rightarrow> bool" where
  "set_and_below t rate = (case t of None \<Rightarrow> False | Some x \<Rightarrow> x \<noteq> 0 \<and> rate < x)"

text \<open>Lines 41 and 45 to 54 of \<open>status\<close>: the assignments to \<^verbatim>\<open>state\<close>, in order.\<close>

definition status_state :: "rat \<Rightarrow> rat option \<Rightarrow> rat option \<Rightarrow> health" where
  "status_state rate warn fail =
     (let state = FAILURE;
          expected_rate = fail
      in if set_and_below warn rate then
           (let state = OPERATIONAL
            in if set_and_below expected_rate rate then PARTIAL else state)
         else if set_and_below fail rate then PARTIAL
         else state)"

definition status :: "(Counts \<Rightarrow> Counts \<Rightarrow> error + rat) \<Rightarrow> store \<Rightarrow> nat \<Rightarrow> error + health" where
  "status rate db deployed_stream =
     (case last_rate rate db deployed_stream of
        Inl e \<Rightarrow> Inl e
      | Inr r \<Rightarrow>
          (case expected_stream_of db deployed_stream of
             None \<Rightarrow> Inl AttributeError
           | Some es \<Rightarrow> Inr (status_state r (warn_interval es) (fail_interval es))))"

text \<open>The classifier as section 4.2 of the specification words it, for comparison with
  \<open>status_state\<close>: a threshold is set when it is neither null nor zero.\<close>

definition is_set :: "rat option \<Rightarrow> bool" where
  "is_set t = (t \<noteq> None \<and> t \<noteq> Some 0)"

definition classify_spec :: "rat \<Rightarrow> rat option \<Rightarrow> rat option \<Rightarrow> health" where
  "classify_spec rate warn fail =
     (if is_set warn \<and> rate < the warn then
        (if is_set fail \<and> rate < the fail then PARTIAL else OPERATIONAL)
      else if is_set fail \<and> rate < the fail then PARTIAL
      else FAILURE)"

subsection \<open>The memo table of \<^verbatim>\<open>_get_or_create_stream\<close>\<close>

text \<open>\<^verbatim>\<open>cache = cachetools.LRUCache(3000)\<close>: the entries, most recently used first.
  Reading a key makes it the most recent one; storing a new key first drops the least
  recently used entries until there is room for one more.\<close>

type_synonym cache_key = "string \<times> string \<times> string"

type_synonym LRUCache = "(cache_key \<times> nat) list"

definition maxsize :: nat where
  "maxsize = 3000"

definition cache_getitem :: "LRUCache \<Rightarrow> cache_key \<Rightarrow> (nat \<times> LRUCache) option" where
  "cache_getitem c k =
     (case map_of c k of
        None \<Rightarrow> None
      | Some v \<Rightarrow> Some (v, (k, v) # filter (\<lambda>e. fst e \<noteq> k) c))"

definition cache_setitem :: "LRUCache \<Rightarrow> cache_key \<Rightarrow> nat \<Rightarrow> LRUCache" where
  "cache_setitem c k v = (k, v) # take (maxsize - 1) (filter (\<lambda>e. fst e \<noteq> k) c)"

record monitor =
  session :: store
  cache :: LRUCache

subsection \<open>\<^verbatim>\<open>_get_or_create_stream\<close>\<close>

text \<open>The three steps of the function body share one shape: query the first row that
  matches, and when there is none create the row and add it to the session.\<close>

definition first_or_add :: "('a \<Rightarrow> bool) \<Rightarrow> 'a \<Rightarrow> 'a list \<Rightarrow> nat \<times> 'a list" where
  "first_or_add P new tbl =
     (case first_index P tbl of
        Some i \<Rightarrow> (i, tbl)
      | None \<Rightarrow> (length tbl, tbl @ [new]))"

text \<open>The body of \<^verbatim>\<open>_get_or_create_stream\<close> (lines 66 to 80), without the decorator.
  \<^verbatim>\<open>ExpectedStream(name=stream, method=method)\<close> leaves the other columns null.\<close>

definition get_or_create_stream_body :: "store \<Rightarrow> string \<Rightarrow> string \<Rightarrow> string \<Rightarrow> nat \<times> store" where
  "get_or_create_stream_body db refdes strm meth =
     (let (rd, rds) = first_or_add (\<lambda>r. rd_name r = refdes) \<lparr>rd_name = refdes\<rparr>
                        (reference_designators db);
          (expected, ess) = first_or_add (\<lambda>e. es_name e = strm \<and> es_method e = meth)
                        \<lparr>es_name = strm, es_method = meth, es_rate = None,
                         warn_interval = None, fail_interval = None\<rparr>
                        (expected_streams db);
          (deployed, dss) = first_or_add (\<lambda>d. ref_des d = rd \<and> expected_stream d = expected)
                        \<lparr>ref_des = rd, expected_stream = expected\<rparr>
                        (deployed_streams db)
      in (deployed, db\<lparr>reference_designators := rds, expected_streams := ess,
                       deployed_streams := dss\<rparr>))"

text \<open>\<^verbatim>\<open>@cachetools.cached(cache)\<close>: a hit returns the stored value without running the
  body; a miss runs the body and stores its result.\<close>

definition get_or_create_stream :: "monitor \<Rightarrow> string \<Rightarrow> string \<Rightarrow> string \<Rightarrow> nat \<times> monitor" where
  "get_or_create_stream m refdes strm meth =
     (case cache_getitem (cache m) (refdes, strm, meth) of
        Some (v, c) \<Rightarrow> (v, m\<lparr>cache := c\<rparr>)
      | None \<Rightarrow>
          (let (v, db) = get_or_create_stream_body (session m) refdes strm meth
           in (v, \<lparr>session = db, cache = cache_setitem (cache m) (refdes, strm, meth) v\<rparr>)))"

subsection \<open>\<^verbatim>\<open>_get_last_count\<close>\<close>

definition get_last_count :: "store \<Rightarrow> nat \<Rightarrow> Counts option" where
  "get_last_count db deployed_stream =
     (case stream_counts db deployed_stream of [] \<Rightarrow> None | c # cs \<Rightarrow> Some c)"

subsection \<open>\<^verbatim>\<open>ntp_epoch_offset\<close>\<close>

text \<open>The date arithmetic of Python's \<^verbatim>\<open>datetime\<close> that line 30 and line 109 rely on:
  the proleptic Gregorian ordinal of a valid date (day 1 is 0001-01-01).  A \<open>datetime\<close> is
  held as the number of seconds between the start of ordinal day 0 and the instant it
  names, so that subtracting two of them and taking \<^verbatim>\<open>total_seconds()\<close> is the
  difference of the two numbers.\<close>

definition is_leap :: "int \<Rightarrow> bool" where
  "is_leap year = (year mod 4 = 0 \<and> (year mod 100 \<noteq> 0 \<or> year mod 400 = 0))"

definition days_before_year :: "int \<Rightarrow> int" where
  "days_before_year year = (let y = year - 1 in y * 365 + y div 4 - y div 100 + y div 400)"

definition days_before_month :: "int \<Rightarrow> nat \<Rightarrow> int" where
  "days_before_month year month =
     [0, 31, 59, 90, 120, 151, 181, 212, 243, 273, 304, 334] ! (month - 1)
       + (if month > 2 \<and> is_leap year then 1 else 0)"

definition ymd2ord :: "int \<Rightarrow> nat \<Rightarrow> int \<Rightarrow> int" where
  "ymd2ord year month day = days_before_year year + days_before_month year month + day"

type_synonym datetime = int

definition datetime :: "int \<Rightarrow> nat \<Rightarrow> int \<Rightarrow> datetime" where
  "datetime year month day = ymd2ord year month day * 86400"

definition ntp_epoch_offset :: int where
  "ntp_epoch_offset = datetime 1970 1 1 - datetime 1900 1 1"

text \<open>\<^verbatim>\<open>datetime.datetime.utcfromtimestamp\<close>: the instant that many seconds after
  1970-01-01T00:00:00; \<^verbatim>\<open>ValueError\<close> when its year is not one of 1 to 9999.\<close>

definition utcfromtimestamp :: "int \<Rightarrow> error + datetime" where
  "utcfromtimestamp t =
     (let v = datetime 1970 1 1 + t
      in if datetime 1 1 1 \<le> v \<and> v < datetime 9999 12 31 + 86400 then Inr v
         else Inl ValueError)"

section \<open>CassStatusMonitor\<close>

text \<open>A row of \<^verbatim>\<open>_query_cassandra\<close>, its fields in the order of the select list:
  \<^verbatim>\<open>subsite, node, sensor, stream, method, count, last\<close>.\<close>

type_synonym row = "string \<times> string \<times> string \<times> string \<times> string \<times> int \<times> int"

text \<open>\<^verbatim>\<open>sep.join(parts)\<close>.\<close>

fun str_join :: "string \<Rightarrow> string list \<Rightarrow> string" where
  "str_join sep [] = []"
| "str_join sep [x] = x"
| "str_join sep (x # y # ys) = x @ sep @ str_join sep (y # ys)"

text \<open>The body of the \<^verbatim>\<open>for\<close> loop of \<^verbatim>\<open>_counts_from_rows\<close> (lines 108 to 115).  The
  tuple pattern is the one of line 108: it names the fourth field \<^verbatim>\<open>method\<close> and the
  fifth \<^verbatim>\<open>stream\<close>.  An object of the table class \<^verbatim>\<open>Counts\<close> is always true, so
  \<^verbatim>\<open>not last_count\<close> holds exactly when the query found no row.\<close>

fun counts_from_row :: "monitor \<Rightarrow> row \<Rightarrow> error + monitor" where
  "counts_from_row m (subsite, node, sensor, meth, strm, count, ntp_timestamp) =
     (case utcfromtimestamp (ntp_timestamp - ntp_epoch_offset) of
        Inl e \<Rightarrow> Inl e
      | Inr ts \<Rightarrow>
          (let refdes = str_join ''-'' [subsite, node, sensor];
               (deployed, m1) = get_or_create_stream m refdes strm meth;
               last_count = get_last_count (session m1) deployed
           in if (case last_count of None \<Rightarrow> True | Some lc \<Rightarrow> particle_count lc \<noteq> count)
              then Inr (m1\<lparr>session := add_counts (session m1)
                             \<lparr>stream = deployed, particle_count = count, timestamp = ts\<rparr>\<rparr>)
              else Inr m1))"

declare counts_from_row.simps [simp del]

text \<open>\<^verbatim>\<open>_counts_from_rows\<close>: the loop.  An exception leaves the loop and the
  transaction; the model then has no resulting state.\<close>

fun counts_from_rows :: "monitor \<Rightarrow> row list \<Rightarrow> error + monitor" where
  "counts_from_rows m [] = Inr m"
| "counts_from_rows m (r # rows) =
     (case counts_from_row m r of
        Inl e \<Rightarrow> Inl e
      | Inr m1 \<Rightarrow> counts_from_rows m1 rows)"


section \<open>UframeStatusMonitor\<close>

text \<open>\<^verbatim>\<open>s.split(sep, maxsplit)\<close> for a separator of one character.\<close>

fun split_maxsplit :: "char \<Rightarrow> nat \<Rightarrow> string \<Rightarrow> string list" where
  "split_maxsplit sep 0 s = [s]"
| "split_maxsplit sep (Suc n) s =
     (case dropWhile (\<lambda>c. c \<noteq> sep) s of
        [] \<Rightarrow> [s]
      | c # rest \<Rightarrow> takeWhile (\<lambda>c. c \<noteq> sep) s # split_maxsplit sep n rest)"

text \<open>\<^verbatim>\<open>subsite, node, sensor = ref_des.split('-', 2)\<close>: unpacking a list that does not
  have three elements raises \<^verbatim>\<open>ValueError\<close>.\<close>

definition parse_reference_designator :: "string \<Rightarrow> error + (string \<times> string \<times> string)" where
  "parse_reference_designator ref_des_name =
     (case split_maxsplit CHR ''-'' (Suc (Suc 0)) ref_des_name of
        [subsite, node, sensor] \<Rightarrow> Inr (subsite, node, sensor)
      | _ \<Rightarrow> Inl ValueError)"

text \<open>A JSON value of the metadata reply, and the reply itself: its status code and
  what \<^verbatim>\<open>response.json()\<close> gives, a list of dictionaries (\<open>None\<close> when the body does not
  parse, where \<^verbatim>\<open>json()\<close> raises \<^verbatim>\<open>ValueError\<close>).\<close>

datatype jvalue = JStr string | JNum int

type_synonym stream_dict = "string \<rightharpoonup> jvalue"

record response =
  status_code :: int
  json :: "stream_dict list option"

text \<open>\<^verbatim>\<open>'%d' % port\<close> for a port number.\<close>

fun str_nat :: "nat \<Rightarrow> string" where
  "str_nat n =
     (if n < 10 then [''0123456789'' ! n]
      else str_nat (n div 10) @ [''0123456789'' ! (n mod 10)])"

declare str_nat.simps [simp del]

definition EDEX_BASE_URL :: "string \<Rightarrow> nat \<Rightarrow> string \<Rightarrow> string \<Rightarrow> string \<Rightarrow> string" where
  "EDEX_BASE_URL host port subsite node sensor =
     ''http://'' @ host @ '':'' @ str_nat port @ ''/sensor/inv/'' @ subsite @ ''/'' @ node
       @ ''/'' @ sensor"

text \<open>The \<^verbatim>\<open>for\<close> loop of \<^verbatim>\<open>_query_api\<close> (lines 163 to 169), started with the defaults
  \<^verbatim>\<open>count = 0\<close> and \<^verbatim>\<open>timestamp = 0\<close>.  \<^verbatim>\<open>stream_dict[key]\<close> raises \<^verbatim>\<open>KeyError\<close> for
  a key the dictionary does not have; \<^verbatim>\<open>and\<close> reads \<^verbatim>\<open>'method'\<close> only when the stream
  name matched.\<close>

fun find_stream_dict :: "string \<Rightarrow> string \<Rightarrow> stream_dict list \<Rightarrow> error + (jvalue \<times> jvalue)" where
  "find_stream_dict strm meth [] = Inr (JNum 0, JNum 0)"
| "find_stream_dict strm meth (sd # sds) =
     (case sd ''stream'' of
        None \<Rightarrow> Inl KeyError
      | Some s \<Rightarrow>
          if s \<noteq> JStr strm then find_stream_dict strm meth sds
          else
            (case sd ''method'' of
               None \<Rightarrow> Inl KeyError
             | Some me \<Rightarrow>
                 if me \<noteq> JStr meth then find_stream_dict strm meth sds
                 else
                   (case sd ''count'' of
                      None \<Rightarrow> Inl KeyError
                    | Some c \<Rightarrow>
                        (case sd ''endTime'' of
                           None \<Rightarrow> Inl KeyError
                         | Some t \<Rightarrow> Inr (c, t)))))"

text \<open>\<^verbatim>\<open>_query_api\<close>.  \<open>requests_get\<close> is the network: what \<^verbatim>\<open>requests.get(url)\<close>
  returns for a URL, or the exception it raises.\<close>

definition query_api ::
  "(string \<Rightarrow> error + response) \<Rightarrow> string \<Rightarrow> nat \<Rightarrow> store \<Rightarrow> nat \<Rightarrow> error + (jvalue \<times> jvalue)" where
  "query_api requests_get uframe_host uframe_port db deployed_stream =
     (case ref_des_of db deployed_stream of
        None \<Rightarrow> Inl AttributeError
      | Some rd \<Rightarrow>
          (case parse_reference_designator (rd_name rd) of
             Inl e \<Rightarrow> Inl e
           | Inr (subsite, node, sensor) \<Rightarrow>
               (case expected_stream_of db deployed_stream of
                  None \<Rightarrow> Inl AttributeError
                | Some es \<Rightarrow>
                    (case requests_get (EDEX_BASE_URL uframe_host uframe_port subsite node sensor
                                          @ ''/metadata/times'') of
                       Inl e \<Rightarrow> Inl e
                     | Inr response \<Rightarrow>
                         if status_code response \<noteq> 200 then Inr (JNum 0, JNum 0)
                         else
                           (case json response of
                              None \<Rightarrow> Inl ValueError
                            | Some sds \<Rightarrow> find_stream_dict (es_name es) (es_method es) sds)))))"

text \<open>\<^verbatim>\<open>_create_counts\<close>: one new row for the stream, whatever \<open>query_api\<close> returned.
  The two columns are numeric; a JSON string cannot be stored in them.\<close>

definition create_counts ::
  "(string \<Rightarrow> error + response) \<Rightarrow> string \<Rightarrow> nat \<Rightarrow> store \<Rightarrow> nat \<Rightarrow> error + (Counts \<times> store)" where
  "create_counts requests_get uframe_host uframe_port db deployed_stream =
     (case query_api requests_get uframe_host uframe_port db deployed_stream of
        Inl e \<Rightarrow> Inl e
      | Inr (JNum count, JNum ts) \<Rightarrow>
          (let c = \<lparr>stream = deployed_stream, particle_count = count, timestamp = ts\<rparr>
           in Inr (c, add_counts db c))
      | Inr _ \<Rightarrow> Inl TypeError)"

text \<open>\<^verbatim>\<open>UframeStatusMonitor.gather_all\<close>: the loop over the deployed streams that
  \<^verbatim>\<open>query(DeployedStream).all()\<close> returned when the loop started.\<close>

fun create_counts_each ::
  "(string \<Rightarrow> error + response) \<Rightarrow> string \<Rightarrow> nat \<Rightarrow> store \<Rightarrow> nat list \<Rightarrow> error + store" where
  "create_counts_each requests_get uframe_host uframe_port db [] = Inr db"
| "create_counts_each requests_get uframe_host uframe_port db (d # ds) =
     (case create_counts requests_get uframe_host uframe_port db d of
        Inl e \<Rightarrow> Inl e
      | Inr (c, db1) \<Rightarrow> create_counts_each requests_get uframe_host uframe_port db1 ds)"


section \<open>Predicates on stores\<close>

text \<open>The deployed stream the store already holds for a reference designator, a stream
  name and a method: the three queries of \<^verbatim>\<open>_get_or_create_stream\<close> without the
  creations.\<close>

definition find_stream :: "store \<Rightarrow> string \<Rightarrow> string \<Rightarrow> string \<Rightarrow> nat option" where
  "find_stream db refdes strm meth =
     (case first_index (\<lambda>r. rd_name r = refdes) (reference_designators db) of
        None \<Rightarrow> None
      | Some rd \<Rightarrow>
          (case first_index (\<lambda>e. es_name e = strm \<and> es_method e = meth) (expected_streams db) of
             None \<Rightarrow> None
           | Some expected \<Rightarrow>
               first_index (\<lambda>d. ref_des d = rd \<and> expected_stream d = expected)
                 (deployed_streams db)))"

text \<open>No table holds two rows with the same identity: a reference designator is
  identified by its name, an expected stream by its name and method, a deployed stream
  by the two rows it joins.\<close>

definition unique_keys :: "store \<Rightarrow> bool" where
  "unique_keys db =
     (distinct (map rd_name (reference_designators db))
      \<and> distinct (map (\<lambda>e. (es_name e, es_method e)) (expected_streams db))
      \<and> distinct (map (\<lambda>d. (ref_des d, expected_stream d)) (deployed_streams db)))"

text \<open>The counts of every stream, ordered by timestamp, do not decrease; rows of one
  stream with equal timestamps then have equal counts.\<close>

definition monotone_counts :: "store \<Rightarrow> bool" where
  "monotone_counts db =
     (\<forall>c1 \<in> set (counts db). \<forall>c2 \<in> set (counts db).
        stream c1 = stream c2 \<and> timestamp c1 \<le> timestamp c2 \<longrightarrow>
        particle_count c1 \<le> particle_count c2)"

text \<open>The memo table agrees with the store: every entry maps its key to the deployed
  stream the store holds for that key.\<close>

definition cache_coherent :: "monitor \<Rightarrow> bool" where
  "cache_coherent m =
     (\<forall>((refdes, strm, meth), d) \<in> set (cache m).
        find_stream (session m) refdes strm meth = Some d)"





section \<open>Example states\<close>

text \<open>One deployed stream \<^verbatim>\<open>A-B-C\<close> / \<^verbatim>\<open>st1\<close> / \<^verbatim>\<open>telemetered\<close> with the thresholds
  \<open>warn\<close> and \<open>fail\<close> and the given log of counts.\<close>

definition one_stream :: "rat option \<Rightarrow> rat option \<Rightarrow> Counts list \<Rightarrow> store" where
  "one_stream warn fail cs =
     \<lparr>reference_designators = [\<lparr>rd_name = ''A-B-C''\<rparr>],
      expected_streams = [\<lparr>es_name = ''st1'', es_method = ''telemetered'', es_rate = None,
                           warn_interval = warn, fail_interval = fail\<rparr>],
      deployed_streams = [\<lparr>ref_des = 0, expected_stream = 0\<rparr>],
      counts = cs\<rparr>"

definition fresh_monitor :: monitor where
  "fresh_monitor = \<lparr>session = empty_store, cache = []\<rparr>"

text \<open>The monitor after the bulk collector's first row for \<^verbatim>\<open>A-B-C\<close>, count 100 at
  ten seconds past the 1970 epoch.\<close>

definition after_first_row :: monitor where
  "after_first_row =
     \<lparr>session =
        \<lparr>reference_designators = [\<lparr>rd_name = ''A-B-C''\<rparr>],
         expected_streams =
           [\<lparr>es_name = ''telemetered'', es_method = ''st1'', es_rate = None,
             warn_interval = None, fail_interval = None\<rparr>],
         deployed_streams = [\<lparr>ref_des = 0, expected_stream = 0\<rparr>],
         counts = [\<lparr>stream = 0, particle_count = 100, timestamp = datetime 1970 1 1 + 10\<rparr>]\<rparr>,
      cache = [((''A-B-C'', ''telemetered'', ''st1''), 0)]\<rparr>"

text \<open>A metadata service that knows the sensor \<^verbatim>\<open>A-B-C\<close> and answers with the given
  entries, and one that answers every request with status 503.\<close>

definition entry :: "string \<Rightarrow> string \<Rightarrow> int \<Rightarrow> int \<Rightarrow> stream_dict" where
  "entry strm meth count end_time =
     [''stream'' \<mapsto> JStr strm, ''method'' \<mapsto> JStr meth,
      ''count'' \<mapsto> JNum count, ''endTime'' \<mapsto> JNum end_time]"

definition uframe_service :: "stream_dict list \<Rightarrow> string \<Rightarrow> error + response" where
  "uframe_service entries url =
     (if url = ''http://uframe:12576/sensor/inv/A/B/C/metadata/times''
      then Inr \<lparr>status_code = 200, json = Some entries\<rparr>
      else Inl RequestException)"

definition unavailable_service :: "string \<Rightarrow> error + response" where
  "unavailable_service url = Inr \<lparr>status_code = 503, json = None\<rparr>"

section \<open>Properties\<close>

subsection \<open>Queries and identity resolution\<close>

lemma first_index_None: "first_index P xs = None \<longleftrightarrow> (\<forall>x \<in> set xs. \<not> P x)"
  by (induction xs) auto

lemma first_index_Some: "first_index P xs = Some i \<Longrightarrow> i < length xs \<and> P (xs ! i)"
  by (induction xs arbitrary: i) (auto split: if_splits)

lemma first_index_append:
  "first_index P (xs @ ys) =
     (case first_index P xs of
        Some i \<Rightarrow> Some i
      | None \<Rightarrow> map_option (\<lambda>j. length xs + j) (first_index P ys))"
  by (induction xs) (cases "first_index P ys"; simp split: option.split)+

lemma first_or_add_found:
  "first_index P tbl = Some i \<Longrightarrow> first_or_add P new tbl = (i, tbl)"
  by (simp add: first_or_add_def)

lemma first_or_add_again:
  "P new \<Longrightarrow> first_or_add P new tbl = (i, tbl') \<Longrightarrow> first_index P tbl' = Some i"
  by (auto simp: first_or_add_def first_index_append split: option.splits)

lemma first_or_add_distinct:
  assumes "distinct (map key tbl)" "\<And>x. P x \<longleftrightarrow> key x = key new"
  shows "distinct (map key (snd (first_or_add P new tbl)))"
proof (cases "first_index P tbl")
  case None
  then have "key new \<notin> key ` set tbl"
    using assms(2) by (auto simp: first_index_None)
  with None assms(1) show ?thesis by (simp add: first_or_add_def)
next
  case (Some i)
  with assms(1) show ?thesis by (simp add: first_or_add_def)
qed

lemma body_found:
  "find_stream db refdes strm meth = Some d \<Longrightarrow>
   get_or_create_stream_body db refdes strm meth = (d, db)"
  by (auto simp: find_stream_def get_or_create_stream_body_def first_or_add_found
      split: option.splits)

lemma body_resolved:
  assumes "get_or_create_stream_body db refdes strm meth = (d, db1)"
  shows "find_stream db1 refdes strm meth = Some d"
proof -
  obtain rd rds where rd: "first_or_add (\<lambda>r. rd_name r = refdes) \<lparr>rd_name = refdes\<rparr>
      (reference_designators db) = (rd, rds)"
    by (cases "first_or_add (\<lambda>r. rd_name r = refdes) \<lparr>rd_name = refdes\<rparr>
      (reference_designators db)")
  obtain ex ess where ex: "first_or_add (\<lambda>e. es_name e = strm \<and> es_method e = meth)
      \<lparr>es_name = strm, es_method = meth, es_rate = None, warn_interval = None,
       fail_interval = None\<rparr> (expected_streams db) = (ex, ess)"
    by (cases "first_or_add (\<lambda>e. es_name e = strm \<and> es_method e = meth)
      \<lparr>es_name = strm, es_method = meth, es_rate = None, warn_interval = None,
       fail_interval = None\<rparr> (expected_streams db)")
  obtain dp dss where dp: "first_or_add (\<lambda>d. ref_des d = rd \<and> expected_stream d = ex)
      \<lparr>ref_des = rd, expected_stream = ex\<rparr> (deployed_streams db) = (dp, dss)"
    by (cases "first_or_add (\<lambda>d. ref_des d = rd \<and> expected_stream d = ex)
      \<lparr>ref_des = rd, expected_stream = ex\<rparr> (deployed_streams db)")
  have r1: "first_index (\<lambda>r. rd_name r = refdes) rds = Some rd"
    using first_or_add_again [OF _ rd] by simp
  have r2: "first_index (\<lambda>e. es_name e = strm \<and> es_method e = meth) ess = Some ex"
    using first_or_add_again [OF _ ex] by simp
  have r3: "first_index (\<lambda>d. ref_des d = rd \<and> expected_stream d = ex) dss = Some dp"
    using first_or_add_again [OF _ dp] by simp
  from assms rd ex dp have "d = dp"
    and "db1 = db\<lparr>reference_designators := rds, expected_streams := ess,
                  deployed_streams := dss\<rparr>"
    by (simp_all add: get_or_create_stream_body_def)
  then show ?thesis
    using r1 r2 r3 by (simp add: find_stream_def)
qed

lemma body_idempotent:
  "get_or_create_stream_body db refdes strm meth = (d, db1) \<Longrightarrow>
   get_or_create_stream_body db1 refdes strm meth = (d, db1)"
  by (rule body_found) (rule body_resolved)

lemma body_unique_keys:
  assumes "unique_keys db"
  shows "unique_keys (snd (get_or_create_stream_body db refdes strm meth))"
proof -
  have 1: "distinct (map rd_name (snd (first_or_add (\<lambda>r. rd_name r = refdes)
      \<lparr>rd_name = refdes\<rparr> (reference_designators db))))"
    using assms by (intro first_or_add_distinct) (auto simp: unique_keys_def)
  have 2: "distinct (map (\<lambda>e. (es_name e, es_method e))
      (snd (first_or_add (\<lambda>e. es_name e = strm \<and> es_method e = meth)
      \<lparr>es_name = strm, es_method = meth, es_rate = None, warn_interval = None,
       fail_interval = None\<rparr> (expected_streams db))))"
    using assms by (intro first_or_add_distinct) (auto simp: unique_keys_def)
  have 3: "distinct (map (\<lambda>d. (ref_des d, expected_stream d))
      (snd (first_or_add (\<lambda>d. ref_des d = rd \<and> expected_stream d = ex)
      \<lparr>ref_des = rd, expected_stream = ex\<rparr> (deployed_streams db))))" for rd ex
    using assms by (intro first_or_add_distinct) (auto simp: unique_keys_def)
  show ?thesis
    using 1 2 3 by (simp add: get_or_create_stream_body_def unique_keys_def split_def Let_def)
qed

lemma cache_getitem_again:
  "cache_getitem c k = Some (v, c1) \<Longrightarrow> \<exists>c2. cache_getitem c1 k = Some (v, c2)"
  by (auto simp: cache_getitem_def split: option.splits)

lemma cache_getitem_setitem:
  "\<exists>c2. cache_getitem (cache_setitem c k v) k = Some (v, c2)"
  by (simp add: cache_getitem_def cache_setitem_def)

lemma get_or_create_stream_session:
  "session (snd (get_or_create_stream m refdes strm meth)) = session m
   \<or> session (snd (get_or_create_stream m refdes strm meth))
       = snd (get_or_create_stream_body (session m) refdes strm meth)"
  by (simp add: get_or_create_stream_def split_def Let_def split: option.split)

lemma counts_get_or_create_stream:
  "counts (session (snd (get_or_create_stream m refdes strm meth))) = counts (session m)"
  by (simp add: get_or_create_stream_def get_or_create_stream_body_def Let_def
      split: option.split prod.split)

lemma get_or_create_stream_again:
  assumes "get_or_create_stream m refdes strm meth = (d, m1)"
  shows "\<exists>c. get_or_create_stream m1 refdes strm meth = (d, m1\<lparr>cache := c\<rparr>)"
proof (cases "cache_getitem (cache m) (refdes, strm, meth)")
  case None
  with assms have "d = fst (get_or_create_stream_body (session m) refdes strm meth)"
    and "cache m1 = cache_setitem (cache m) (refdes, strm, meth) d"
    by (auto simp: get_or_create_stream_def split_def Let_def)
  then show ?thesis
    using cache_getitem_setitem [of "cache m" "(refdes, strm, meth)" d]
    by (auto simp: get_or_create_stream_def)
next
  case (Some a)
  with assms have "cache_getitem (cache m) (refdes, strm, meth) = Some (d, cache m1)"
    by (cases a) (auto simp: get_or_create_stream_def)
  from cache_getitem_again [OF this] show ?thesis
    by (auto simp: get_or_create_stream_def)
qed

lemmas date_defs = datetime_def ymd2ord_def days_before_year_def days_before_month_def is_leap_def

lemma ntp_epoch_offset_value: "ntp_epoch_offset = 2208988800"
  by (simp add: ntp_epoch_offset_def date_defs)

lemmas run_defs = fresh_monitor_def empty_store_def ntp_epoch_offset_value utcfromtimestamp_def
  date_defs get_or_create_stream_def cache_getitem_def get_or_create_stream_body_def
  first_or_add_def cache_setitem_def get_last_count_def stream_counts_def
  order_by_timestamp_desc_def add_counts_def Let_def

text \<open>The end-to-end scenario of the specification, on the code: the bulk collector
  returns one row for \<^verbatim>\<open>A-B-C\<close>, and the store is empty.\<close>

lemma counts_from_row_first_row:
  "counts_from_row fresh_monitor (''A'', ''B'', ''C'', ''st1'', ''telemetered'', 100, 2208988810) =
     Inr \<lparr>session =
            \<lparr>reference_designators = [\<lparr>rd_name = ''A-B-C''\<rparr>],
             expected_streams =
               [\<lparr>es_name = ''telemetered'', es_method = ''st1'', es_rate = None,
                 warn_interval = None, fail_interval = None\<rparr>],
             deployed_streams = [\<lparr>ref_des = 0, expected_stream = 0\<rparr>],
             counts = [\<lparr>stream = 0, particle_count = 100, timestamp = datetime 1970 1 1 + 10\<rparr>]\<rparr>,
          cache = [((''A-B-C'', ''telemetered'', ''st1''), 0)]\<rparr>"
  by (simp add: counts_from_row.simps run_defs)

lemma monotone_after_first_row: "monotone_counts (session after_first_row)"
  by (simp add: monotone_counts_def after_first_row_def)

lemma get_or_create_stream_after_first_row:
  "get_or_create_stream after_first_row (str_join ''-'' [''A'', ''B'', ''C'']) ''telemetered'' ''st1''
     = (0, after_first_row)"
  by (simp add: after_first_row_def get_or_create_stream_def cache_getitem_def)

lemma get_last_count_after_first_row:
  "get_last_count (session after_first_row) 0
     = Some \<lparr>stream = 0, particle_count = 100, timestamp = datetime 1970 1 1 + 10\<rparr>"
  by (simp add: after_first_row_def get_last_count_def stream_counts_def order_by_timestamp_desc_def)

lemma utcfromtimestamp_example:
  "utcfromtimestamp (2208988820 - ntp_epoch_offset) = Inr (datetime 1970 1 1 + 20)"
  by (simp add: ntp_epoch_offset_value utcfromtimestamp_def date_defs)

text \<open>
  C5.  Calling \<open>get_or_create_stream\<close> twice with the same reference designator, stream
  and method returns the same deployed stream both times, and the second call leaves the
  three tables as the first call left them; the same holds for the function body alone,
  as after an eviction from the memo table.  A call never gives a table two rows with
  the same identity.  An expected stream that the store did not hold is created with
  null rate and thresholds.
\<close>

theorem get_or_create_stream_idempotent:
  "(let (d1, m1) = get_or_create_stream m refdes strm meth;
        (d2, m2) = get_or_create_stream m1 refdes strm meth
    in d2 = d1 \<and> session m2 = session m1
       \<and> (unique_keys (session m) \<longrightarrow> unique_keys (session m2)))
   \<and> (let (d1, db1) = get_or_create_stream_body db refdes strm meth;
           (d2, db2) = get_or_create_stream_body db1 refdes strm meth
       in d2 = d1 \<and> db2 = db1 \<and> (unique_keys db \<longrightarrow> unique_keys db1))
   \<and> (first_index (\<lambda>e. es_name e = strm \<and> es_method e = meth) (expected_streams db) = None \<longrightarrow>
        expected_streams (snd (get_or_create_stream_body db refdes strm meth)) =
          expected_streams db @
            [\<lparr>es_name = strm, es_method = meth, es_rate = None,
              warn_interval = None, fail_interval = None\<rparr>])"
proof -
  obtain d1 m1 where g1: "get_or_create_stream m refdes strm meth = (d1, m1)"
    by (cases "get_or_create_stream m refdes strm meth")
  from get_or_create_stream_again [OF g1]
  obtain c where g2: "get_or_create_stream m1 refdes strm meth = (d1, m1\<lparr>cache := c\<rparr>)" ..
  have u: "unique_keys (session m1)" if "unique_keys (session m)"
    using get_or_create_stream_session [of m refdes strm meth] g1 that
      body_unique_keys [of "session m" refdes strm meth]
    by auto
  have A: "(let (d1, m1) = get_or_create_stream m refdes strm meth;
        (d2, m2) = get_or_create_stream m1 refdes strm meth
    in d2 = d1 \<and> session m2 = session m1
       \<and> (unique_keys (session m) \<longrightarrow> unique_keys (session m2)))"
    using g1 g2 u by simp
  obtain e1 db1 where b1: "get_or_create_stream_body db refdes strm meth = (e1, db1)"
    by (cases "get_or_create_stream_body db refdes strm meth")
  have B: "(let (d1, db1) = get_or_create_stream_body db refdes strm meth;
           (d2, db2) = get_or_create_stream_body db1 refdes strm meth
       in d2 = d1 \<and> db2 = db1 \<and> (unique_keys db \<longrightarrow> unique_keys db1))"
    using b1 body_idempotent [OF b1] body_unique_keys [of db refdes strm meth] by simp
  have C: "first_index (\<lambda>e. es_name e = strm \<and> es_method e = meth) (expected_streams db) = None \<longrightarrow>
        expected_streams (snd (get_or_create_stream_body db refdes strm meth)) =
          expected_streams db @
            [\<lparr>es_name = strm, es_method = meth, es_rate = None,
              warn_interval = None, fail_interval = None\<rparr>]"
    by (simp add: get_or_create_stream_body_def first_or_add_def split_def Let_def)
  from A B C show ?thesis by blast
qed

theorem get_or_create_stream_idempotent_witness:
  "unique_keys (session fresh_monitor)
   \<and> first_index (\<lambda>e. es_name e = ''st1'' \<and> es_method e = ''telemetered'')
        (expected_streams empty_store) = None
   \<and> fst (get_or_create_stream
        (snd (get_or_create_stream fresh_monitor ''A-B-C'' ''st1'' ''telemetered''))
        ''A-B-C'' ''st1'' ''telemetered'')
     = fst (get_or_create_stream fresh_monitor ''A-B-C'' ''st1'' ''telemetered'')
   \<and> unique_keys (session (snd (get_or_create_stream
        (snd (get_or_create_stream fresh_monitor ''A-B-C'' ''st1'' ''telemetered''))
        ''A-B-C'' ''st1'' ''telemetered'')))
   \<and> expected_streams (snd (get_or_create_stream_body empty_store ''A-B-C'' ''st1'' ''telemetered''))
     = [\<lparr>es_name = ''st1'', es_method = ''telemetered'', es_rate = None,
         warn_interval = None, fail_interval = None\<rparr>]"
proof -
  have u: "unique_keys (session fresh_monitor)"
    by (simp add: unique_keys_def fresh_monitor_def empty_store_def)
  have n: "first_index (\<lambda>e. es_name e = ''st1'' \<and> es_method e = ''telemetered'')
        (expected_streams empty_store) = None"
    by (simp add: empty_store_def)
  have e: "expected_streams empty_store = []"
    by (simp add: empty_store_def)
  from get_or_create_stream_idempotent [of fresh_monitor "''A-B-C''" "''st1''" "''telemetered''"
      empty_store]
  have "fst (get_or_create_stream
        (snd (get_or_create_stream fresh_monitor ''A-B-C'' ''st1'' ''telemetered''))
        ''A-B-C'' ''st1'' ''telemetered'')
     = fst (get_or_create_stream fresh_monitor ''A-B-C'' ''st1'' ''telemetered'')"
    and "unique_keys (session fresh_monitor) \<longrightarrow>
      unique_keys (session (snd (get_or_create_stream
        (snd (get_or_create_stream fresh_monitor ''A-B-C'' ''st1'' ''telemetered''))
        ''A-B-C'' ''st1'' ''telemetered'')))"
    and "first_index (\<lambda>e. es_name e = ''st1'' \<and> es_method e = ''telemetered'')
        (expected_streams empty_store) = None \<longrightarrow>
      expected_streams (snd (get_or_create_stream_body empty_store ''A-B-C'' ''st1'' ''telemetered''))
        = expected_streams empty_store @ [\<lparr>es_name = ''st1'', es_method = ''telemetered'',
            es_rate = None, warn_interval = None, fail_interval = None\<rparr>]"
    unfolding split_def Let_def by blast+
  with u n e show ?thesis by simp
qed


subsection \<open>The status classifier\<close>

lemma set_and_below_is_set: "set_and_below t rate = (is_set t \<and> rate < the t)"
  by (cases t) (auto simp: set_and_below_def is_set_def)

lemma status_state_classify_spec: "status_state rate warn fail = classify_spec rate warn fail"
  by (simp add: status_state_def classify_spec_def set_and_below_is_set Let_def)

lemma expected_stream_of_one_stream:
  "expected_stream_of (one_stream warn fail cs) 0 =
     Some \<lparr>es_name = ''st1'', es_method = ''telemetered'', es_rate = None,
           warn_interval = warn, fail_interval = fail\<rparr>"
  by (simp add: expected_stream_of_def nth_opt_def one_stream_def)

lemma length_stream_counts:
  "length (stream_counts db d) = length (filter (\<lambda>c. stream c = d) (counts db))"
  by (simp add: stream_counts_def order_by_timestamp_desc_def)

text \<open>
  C1.  For every deployed stream, \<open>status\<close> is the decision procedure of the
  specification applied to the stream's last rate and the two thresholds of its expected
  stream: FAILURE by default; OPERATIONAL when \<open>warn_interval\<close> is set (neither null nor
  zero) and the rate is below it, and then PARTIAL when the expected-rate threshold,
  which is read from \<open>fail_interval\<close>, is set and the rate is below it; otherwise PARTIAL
  when \<open>fail_interval\<close> is set and the rate is below it; otherwise FAILURE.  With
  \<open>warn_interval = 10\<close> and \<open>fail_interval = 5\<close>, the rates 8, 3 and 12 give
  OPERATIONAL, PARTIAL and FAILURE.
\<close>

theorem status_decision_procedure:
  "status rate db d =
     (case last_rate rate db d of
        Inl e \<Rightarrow> Inl e
      | Inr r \<Rightarrow>
          (case expected_stream_of db d of
             None \<Rightarrow> Inl AttributeError
           | Some es \<Rightarrow> Inr (classify_spec r (warn_interval es) (fail_interval es))))
   \<and> status_state 8 (Some 10) (Some 5) = OPERATIONAL
   \<and> status_state 3 (Some 10) (Some 5) = PARTIAL
   \<and> status_state 12 (Some 10) (Some 5) = FAILURE"
  by (simp add: status_def status_state_classify_spec classify_spec_def is_set_def
      split: sum.split option.split)

lemma last_rate_two_counts:
  "last_rate rate_spec
     (one_stream warn fail [\<lparr>stream = 0, particle_count = 100, timestamp = 10\<rparr>,
                            \<lparr>stream = 0, particle_count = 108, timestamp = 11\<rparr>]) 0 = Inr 8"
  by (simp add: last_rate_def stream_counts_def order_by_timestamp_desc_def one_stream_def
      rate_spec_def)

theorem status_decision_procedure_witness:
  "status rate_spec
     (one_stream (Some 10) (Some 5) [\<lparr>stream = 0, particle_count = 100, timestamp = 10\<rparr>,
                                     \<lparr>stream = 0, particle_count = 108, timestamp = 11\<rparr>]) 0
   = Inr OPERATIONAL"
  using status_decision_procedure [of rate_spec
     "one_stream (Some 10) (Some 5) [\<lparr>stream = 0, particle_count = 100, timestamp = 10\<rparr>,
                                     \<lparr>stream = 0, particle_count = 108, timestamp = 11\<rparr>]" 0]
  by (simp add: last_rate_two_counts expected_stream_of_one_stream classify_spec_def is_set_def)

text \<open>
  C6.  When a stream has fewer than two recorded counts, \<open>last_rate\<close> returns 0 and
  raises nothing, and \<open>status\<close> classifies the rate 0 as it would any other rate.  When
  neither threshold of the expected stream is set, the state is FAILURE whatever the
  rate.
\<close>

theorem too_few_counts_rate_zero:
  "(length (filter (\<lambda>c. stream c = d) (counts db)) < 2 \<longrightarrow>
      last_rate rate db d = Inr 0
      \<and> status rate db d =
          (case expected_stream_of db d of
             None \<Rightarrow> Inl AttributeError
           | Some es \<Rightarrow> Inr (status_state 0 (warn_interval es) (fail_interval es))))
   \<and> (last_rate rate db d = Inr r \<and> expected_stream_of db d = Some es
        \<and> \<not> is_set (warn_interval es) \<and> \<not> is_set (fail_interval es) \<longrightarrow>
      status rate db d = Inr FAILURE)"
proof -
  have zero: "last_rate rate db d = Inr 0"
    if "length (filter (\<lambda>c. stream c = d) (counts db)) < 2"
    using that length_stream_counts [of db d] by (simp add: last_rate_def Let_def)
  have unset: "status_state r w f = FAILURE" if "\<not> is_set w" "\<not> is_set f" for w f
    using that by (simp add: status_state_classify_spec classify_spec_def)
  show ?thesis
    using zero unset by (auto simp: status_def split: option.split)
qed

theorem too_few_counts_rate_zero_witness:
  "last_rate rate_spec
     (one_stream None None [\<lparr>stream = 0, particle_count = 100, timestamp = 10\<rparr>]) 0 = Inr 0
   \<and> status rate_spec
     (one_stream None None [\<lparr>stream = 0, particle_count = 100, timestamp = 10\<rparr>]) 0
     = Inr FAILURE"
proof -
  let ?db = "one_stream None None [\<lparr>stream = 0, particle_count = 100, timestamp = 10\<rparr>]"
  let ?es = "\<lparr>es_name = ''st1'', es_method = ''telemetered'', es_rate = None,
              warn_interval = None, fail_interval = None\<rparr>"
  have few: "length (filter (\<lambda>c. stream c = 0) (counts ?db)) < 2"
    by (simp add: one_stream_def)
  have es: "expected_stream_of ?db 0 = Some ?es"
    by (rule expected_stream_of_one_stream)
  have unset: "\<not> is_set (warn_interval ?es) \<and> \<not> is_set (fail_interval ?es)"
    by (simp add: is_set_def)
  from too_few_counts_rate_zero [where rate = rate_spec and d = 0 and r = 0 and db = ?db
      and es = ?es] few es unset
  show ?thesis by blast
qed

subsection \<open>The bulk collector\<close>

lemma body_add_counts:
  "get_or_create_stream_body (add_counts db c) refdes strm meth =
     (fst (get_or_create_stream_body db refdes strm meth),
      add_counts (snd (get_or_create_stream_body db refdes strm meth)) c)"
  by (simp add: get_or_create_stream_body_def add_counts_def split_def Let_def)

lemma get_or_create_stream_add_counts:
  "get_or_create_stream m refdes strm meth = (d, m0) \<Longrightarrow>
   get_or_create_stream (m\<lparr>session := add_counts (session m) c\<rparr>) refdes strm meth
     = (d, m0\<lparr>session := add_counts (session m0) c\<rparr>)"
  by (auto simp: get_or_create_stream_def body_add_counts split_def Let_def split: option.splits)

lemma get_last_count_cong:
  "counts db = counts db' \<Longrightarrow> get_last_count db d = get_last_count db' d"
  by (simp add: get_last_count_def stream_counts_def)

lemma set_stream_counts:
  "set (stream_counts db d) = {c \<in> set (counts db). stream c = d}"
  by (auto simp: stream_counts_def order_by_timestamp_desc_def)

lemma get_last_count_None:
  "get_last_count db d = None \<longleftrightarrow> (\<forall>c \<in> set (counts db). stream c \<noteq> d)"
proof -
  have "get_last_count db d = None \<longleftrightarrow> set (stream_counts db d) = {}"
    by (simp add: get_last_count_def split: list.split)
  then show ?thesis by (auto simp: set_stream_counts)
qed

lemma get_last_count_Some:
  assumes "get_last_count db d = Some lc"
  shows "lc \<in> set (counts db) \<and> stream lc = d
     \<and> (\<forall>c \<in> set (counts db). stream c = d \<longrightarrow> timestamp c \<le> timestamp lc)"
proof -
  from assms obtain rest where sc: "stream_counts db d = lc # rest"
    by (auto simp: get_last_count_def split: list.splits)
  have "sorted (map (\<lambda>c. - timestamp c) (stream_counts db d))"
    by (simp add: stream_counts_def order_by_timestamp_desc_def)
  with sc have "\<forall>c \<in> set rest. timestamp c \<le> timestamp lc"
    by auto
  moreover have "set (lc # rest) = {c \<in> set (counts db). stream c = d}"
    using set_stream_counts [of db d] sc by simp
  ultimately show ?thesis by auto
qed

lemma get_last_count_first_row:
  "get_last_count db d = None \<Longrightarrow> stream c = d \<Longrightarrow> get_last_count (add_counts db c) d = Some c"
proof -
  assume "get_last_count db d = None" and c: "stream c = d"
  then have "filter (\<lambda>c. stream c = d) (counts db) = []"
    by (simp add: get_last_count_None filter_empty_conv)
  with c show ?thesis
    by (simp add: get_last_count_def stream_counts_def order_by_timestamp_desc_def add_counts_def)
qed

lemma counts_from_row_eq:
  assumes "utcfromtimestamp (ntp_timestamp - ntp_epoch_offset) = Inr ts"
    and "get_or_create_stream m (str_join ''-'' [subsite, node, sensor]) f5 f4 = (d, m0)"
  shows "counts_from_row m (subsite, node, sensor, f4, f5, count, ntp_timestamp) =
     Inr (if (case get_last_count (session m) d of None \<Rightarrow> True
              | Some lc \<Rightarrow> particle_count lc \<noteq> count)
          then m0\<lparr>session := add_counts (session m0)
                    \<lparr>stream = d, particle_count = count, timestamp = ts\<rparr>\<rparr>
          else m0)"
proof -
  have "counts (session m0) = counts (session m)"
    using counts_get_or_create_stream [of m "str_join ''-'' [subsite, node, sensor]" f5 f4] assms(2)
    by simp
  then have "get_last_count (session m0) d = get_last_count (session m) d"
    by (rule get_last_count_cong)
  with assms show ?thesis
    by (simp add: counts_from_row.simps Let_def)
qed

lemma get_last_count_latest_row:
  assumes later: "\<forall>c \<in> set (counts db). stream c = stream n \<longrightarrow> timestamp c < timestamp n"
  shows "get_last_count (add_counts db n) (stream n) = Some n"
proof (cases "get_last_count (add_counts db n) (stream n)")
  case None
  then show ?thesis by (simp add: get_last_count_None add_counts_def)
next
  case (Some lc)
  from get_last_count_Some [OF Some]
  have "lc \<in> set (counts db) \<or> lc = n" "stream lc = stream n" "timestamp n \<le> timestamp lc"
    by (auto simp: add_counts_def)
  with later have "lc = n" by auto
  with Some show ?thesis by simp
qed

text \<open>
  C3 as stated fails for a row that is older than the stream's most recent
  \<open>Counts\<close>: the stream has the count 100 at second 10, and the observation with the
  count 60 at second 5 is ingested twice.  Both times the most recent row is the one of
  second 10, whose count differs, so two rows are appended.
\<close>

theorem late_row_ingested_twice:
  "counts_from_rows after_first_row
      [(''A'', ''B'', ''C'', ''st1'', ''telemetered'', 60, 2208988805),
       (''A'', ''B'', ''C'', ''st1'', ''telemetered'', 60, 2208988805)]
   = Inr (after_first_row\<lparr>session := (session after_first_row)\<lparr>counts :=
       [\<lparr>stream = 0, particle_count = 100, timestamp = datetime 1970 1 1 + 10\<rparr>,
        \<lparr>stream = 0, particle_count = 60, timestamp = datetime 1970 1 1 + 5\<rparr>,
        \<lparr>stream = 0, particle_count = 60, timestamp = datetime 1970 1 1 + 5\<rparr>]\<rparr>\<rparr>)"
  by (simp add: counts_from_row.simps after_first_row_def run_defs)

text \<open>
  C3, amended.  Ingesting a row appends a new \<open>Counts\<close> exactly when the resolved
  stream has no \<open>Counts\<close> yet or its most recent \<open>particle_count\<close> differs from the
  row's count, where the most recent row is one with the greatest timestamp among the
  stream's rows.  When the row is new in that sense and its timestamp is later than the
  stream's most recent timestamp (or the stream has no \<open>Counts\<close> yet), ingesting the
  observation and then the same count again, with the same or any other timestamp,
  appends exactly one \<open>Counts\<close> row.  A row whose count is the stream's most recent
  count appends nothing, whatever its timestamp.
\<close>

theorem ingestion_dedup:
  assumes ts: "utcfromtimestamp (ntp_timestamp - ntp_epoch_offset) = Inr ts"
    and ts': "utcfromtimestamp (ntp_timestamp' - ntp_epoch_offset) = Inr ts'"
    and g: "get_or_create_stream m (str_join ''-'' [subsite, node, sensor]) f5 f4 = (d, m0)"
  shows "(\<exists>m1. counts_from_row m (subsite, node, sensor, f4, f5, count, ntp_timestamp) = Inr m1
            \<and> counts (session m1) = counts (session m) @
                (if (case get_last_count (session m) d of None \<Rightarrow> True
                     | Some lc \<Rightarrow> particle_count lc \<noteq> count)
                 then [\<lparr>stream = d, particle_count = count, timestamp = ts\<rparr>] else []))
     \<and> (get_last_count (session m) d = None \<longleftrightarrow> (\<forall>c \<in> set (counts (session m)). stream c \<noteq> d))
     \<and> (\<forall>lc. get_last_count (session m) d = Some lc \<longrightarrow>
           lc \<in> set (counts (session m)) \<and> stream lc = d
           \<and> (\<forall>c \<in> set (counts (session m)). stream c = d \<longrightarrow> timestamp c \<le> timestamp lc))
     \<and> ((case get_last_count (session m) d of None \<Rightarrow> True
          | Some lc \<Rightarrow> particle_count lc \<noteq> count \<and> timestamp lc < ts) \<longrightarrow>
          (\<exists>m2. counts_from_rows m [(subsite, node, sensor, f4, f5, count, ntp_timestamp),
                                    (subsite, node, sensor, f4, f5, count, ntp_timestamp')] = Inr m2
             \<and> counts (session m2) = counts (session m) @
                 [\<lparr>stream = d, particle_count = count, timestamp = ts\<rparr>]))
     \<and> (\<forall>lc. get_last_count (session m) d = Some lc \<and> particle_count lc = count \<longrightarrow>
          (\<exists>m1. counts_from_row m (subsite, node, sensor, f4, f5, count, ntp_timestamp) = Inr m1
             \<and> counts (session m1) = counts (session m)))"
proof -
  let ?new = "\<lparr>stream = d, particle_count = count, timestamp = ts\<rparr>"
  have m0: "counts (session m0) = counts (session m)"
    using counts_get_or_create_stream [of m "str_join ''-'' [subsite, node, sensor]" f5 f4] g
    by simp
  have A: "\<exists>m1. counts_from_row m (subsite, node, sensor, f4, f5, count, ntp_timestamp) = Inr m1
            \<and> counts (session m1) = counts (session m) @
                (if (case get_last_count (session m) d of None \<Rightarrow> True
                     | Some lc \<Rightarrow> particle_count lc \<noteq> count)
                 then [?new] else [])"
    using counts_from_row_eq [OF ts g, of count] m0 by (simp add: add_counts_def)
  have D: "\<exists>m2. counts_from_rows m [(subsite, node, sensor, f4, f5, count, ntp_timestamp),
                                    (subsite, node, sensor, f4, f5, count, ntp_timestamp')] = Inr m2
             \<and> counts (session m2) = counts (session m) @ [?new]"
    if new: "case get_last_count (session m) d of None \<Rightarrow> True
          | Some lc \<Rightarrow> particle_count lc \<noteq> count \<and> timestamp lc < ts"
  proof -
    let ?m1 = "m0\<lparr>session := add_counts (session m0) ?new\<rparr>"
    have first: "counts_from_row m (subsite, node, sensor, f4, f5, count, ntp_timestamp) = Inr ?m1"
      using counts_from_row_eq [OF ts g, of count] new by (simp split: option.splits)
    from get_or_create_stream_again [OF g] obtain c
      where "get_or_create_stream m0 (str_join ''-'' [subsite, node, sensor]) f5 f4
               = (d, m0\<lparr>cache := c\<rparr>)" ..
    from get_or_create_stream_add_counts [OF this, of ?new]
    have g1: "get_or_create_stream ?m1 (str_join ''-'' [subsite, node, sensor]) f5 f4
               = (d, m0\<lparr>cache := c, session := add_counts (session m0) ?new\<rparr>)"
      by simp
    have "\<forall>c \<in> set (counts (session m0)). stream c = stream ?new \<longrightarrow> timestamp c < timestamp ?new"
    proof (cases "get_last_count (session m) d")
      case None
      then show ?thesis by (simp add: get_last_count_None m0)
    next
      case (Some lc)
      with new have "timestamp lc < ts" by simp
      with get_last_count_Some [OF Some] show ?thesis by (fastforce simp: m0)
    qed
    from get_last_count_latest_row [OF this]
    have "get_last_count (session ?m1) d = Some ?new"
      by simp
    with counts_from_row_eq [OF ts' g1, of count]
    have second: "counts_from_row ?m1 (subsite, node, sensor, f4, f5, count, ntp_timestamp')
        = Inr (m0\<lparr>cache := c, session := add_counts (session m0) ?new\<rparr>)"
      by simp
    show ?thesis
      using first second m0 by (simp add: add_counts_def)
  qed
  have E: "\<exists>m1. counts_from_row m (subsite, node, sensor, f4, f5, count, ntp_timestamp) = Inr m1
             \<and> counts (session m1) = counts (session m)"
    if "get_last_count (session m) d = Some lc" "particle_count lc = count" for lc
    using counts_from_row_eq [OF ts g, of count] m0 that by simp
  show ?thesis
    using A D E get_last_count_None [of "session m" d] get_last_count_Some [of "session m" d]
    by blast
qed

theorem ingestion_dedup_witness:
  "(\<exists>m2. counts_from_rows fresh_monitor
           [(''A'', ''B'', ''C'', ''st1'', ''telemetered'', 100, 2208988810),
            (''A'', ''B'', ''C'', ''st1'', ''telemetered'', 100, 2208988820)] = Inr m2
        \<and> counts (session m2) =
            [\<lparr>stream = 0, particle_count = 100, timestamp = datetime 1970 1 1 + 10\<rparr>])
   \<and> (\<exists>m1. counts_from_row after_first_row
           (''A'', ''B'', ''C'', ''st1'', ''telemetered'', 100, 2208988820) = Inr m1
        \<and> counts (session m1) = counts (session after_first_row))"
proof -
  have ts: "utcfromtimestamp (2208988810 - ntp_epoch_offset) = Inr (datetime 1970 1 1 + 10)"
    by (simp add: ntp_epoch_offset_value utcfromtimestamp_def date_defs)
  have g: "get_or_create_stream fresh_monitor (str_join ''-'' [''A'', ''B'', ''C''])
             ''telemetered'' ''st1''
           = (0, \<lparr>session =
                   \<lparr>reference_designators = [\<lparr>rd_name = ''A-B-C''\<rparr>],
                    expected_streams =
                      [\<lparr>es_name = ''telemetered'', es_method = ''st1'', es_rate = None,
                        warn_interval = None, fail_interval = None\<rparr>],
                    deployed_streams = [\<lparr>ref_des = 0, expected_stream = 0\<rparr>],
                    counts = []\<rparr>,
                 cache = [((''A-B-C'', ''telemetered'', ''st1''), 0)]\<rparr>)"
    by (simp add: run_defs)
  have none: "get_last_count (session fresh_monitor) 0 = None"
    by (simp add: run_defs)
  have empty: "counts (session fresh_monitor) = []"
    by (simp add: run_defs)
  from ingestion_dedup [OF ts utcfromtimestamp_example g, of 100] none empty
  have 1: "\<exists>m2. counts_from_rows fresh_monitor
           [(''A'', ''B'', ''C'', ''st1'', ''telemetered'', 100, 2208988810),
            (''A'', ''B'', ''C'', ''st1'', ''telemetered'', 100, 2208988820)] = Inr m2
        \<and> counts (session m2) =
            [\<lparr>stream = 0, particle_count = 100, timestamp = datetime 1970 1 1 + 10\<rparr>]"
    by simp
  from ingestion_dedup [OF utcfromtimestamp_example utcfromtimestamp_example
      get_or_create_stream_after_first_row, of 100] get_last_count_after_first_row
  have 2: "\<exists>m1. counts_from_row after_first_row
           (''A'', ''B'', ''C'', ''st1'', ''telemetered'', 100, 2208988820) = Inr m1
        \<and> counts (session m1) = counts (session after_first_row)"
    by simp
  from 1 2 show ?thesis by blast
qed

lemma monotone_add_counts:
  assumes mono: "monotone_counts db"
    and later: "case get_last_count db (stream n) of
                  None \<Rightarrow> True
                | Some lc \<Rightarrow> particle_count lc \<le> particle_count n \<and> timestamp lc < timestamp n"
  shows "monotone_counts (add_counts db n)"
proof -
  have old_new: "particle_count c \<le> particle_count n \<and> timestamp c < timestamp n"
    if "c \<in> set (counts db)" "stream c = stream n" for c
  proof (cases "get_last_count db (stream n)")
    case None
    with that show ?thesis by (auto simp: get_last_count_None)
  next
    case (Some lc)
    from get_last_count_Some [OF Some] that
    have lc: "lc \<in> set (counts db)" "stream lc = stream c" "timestamp c \<le> timestamp lc"
      by auto
    with mono that have "particle_count c \<le> particle_count lc"
      by (auto simp: monotone_counts_def)
    with later Some lc show ?thesis by auto
  qed
  show ?thesis
    unfolding monotone_counts_def add_counts_def
    using mono old_new by (fastforce simp: monotone_counts_def)
qed

lemma first_or_add_mono:
  "first_index Q tbl = Some i \<Longrightarrow> first_index Q (snd (first_or_add P new tbl)) = Some i"
  by (simp add: first_or_add_def first_index_append split: option.split)

lemma find_stream_body_mono:
  assumes "find_stream db r s me = Some d"
  shows "find_stream (snd (get_or_create_stream_body db refdes strm meth)) r s me = Some d"
proof -
  from assms obtain rd ex
    where 1: "first_index (\<lambda>x. rd_name x = r) (reference_designators db) = Some rd"
      and 2: "first_index (\<lambda>e. es_name e = s \<and> es_method e = me) (expected_streams db) = Some ex"
      and 3: "first_index (\<lambda>x. ref_des x = rd \<and> expected_stream x = ex) (deployed_streams db)
                = Some d"
    by (auto simp: find_stream_def split: option.splits)
  show ?thesis
    by (simp add: find_stream_def get_or_create_stream_body_def split_def Let_def
        first_or_add_mono [OF 1] first_or_add_mono [OF 2] first_or_add_mono [OF 3])
qed


lemma set_cache_getitem:
  "cache_getitem c k = Some (v, c1) \<Longrightarrow> (k, v) \<in> set c \<and> set c1 \<subseteq> set c"
  by (auto simp: cache_getitem_def split: option.splits dest: map_of_SomeD)

lemma set_cache_setitem: "set (cache_setitem c k v) \<subseteq> insert (k, v) (set c)"
  by (auto simp: cache_setitem_def dest: in_set_takeD)


lemma cache_coherent_get_or_create_stream:
  assumes coh: "cache_coherent m"
  shows "cache_coherent (snd (get_or_create_stream m refdes strm meth))"
proof (cases "cache_getitem (cache m) (refdes, strm, meth)")
  case None
  obtain d db where b: "get_or_create_stream_body (session m) refdes strm meth = (d, db)"
    by (cases "get_or_create_stream_body (session m) refdes strm meth")
  have new: "find_stream db refdes strm meth = Some d"
    using body_resolved [OF b] .
  have old: "find_stream db r s me = Some v" if "((r, s, me), v) \<in> set (cache m)" for r s me v
    using find_stream_body_mono [of "session m" r s me v refdes strm meth] coh that b
    by (auto simp: cache_coherent_def)
  have "set (cache_setitem (cache m) (refdes, strm, meth) d)
          \<subseteq> insert ((refdes, strm, meth), d) (set (cache m))"
    by (rule set_cache_setitem)
  with new old have "cache_coherent \<lparr>session = db, cache = cache_setitem (cache m) (refdes, strm, meth) d\<rparr>"
    by (auto simp: cache_coherent_def)
  with None b show ?thesis
    by (simp add: get_or_create_stream_def)
next
  case (Some a)
  obtain v c where a: "a = (v, c)" by (cases a)
  from set_cache_getitem [OF Some [unfolded a]] coh
  have "cache_coherent (m\<lparr>cache := c\<rparr>)"
    by (auto simp: cache_coherent_def)
  with Some a show ?thesis
    by (simp add: get_or_create_stream_def)
qed

lemma find_stream_add_counts: "find_stream (add_counts db c) r s me = find_stream db r s me"
  by (simp add: find_stream_def add_counts_def split: option.split)

text \<open>The memo table of a fresh monitor agrees with the store, and ingestion keeps it so.\<close>

lemma cache_coherent_fresh_monitor: "cache_coherent fresh_monitor"
  by (simp add: cache_coherent_def fresh_monitor_def)

lemma cache_coherent_counts_from_row:
  assumes coh: "cache_coherent m" and run: "counts_from_row m r = Inr m1"
  shows "cache_coherent m1"
proof -
  obtain subsite node sensor f4 f5 count ntp_timestamp
    where r: "r = (subsite, node, sensor, f4, f5, count, ntp_timestamp)"
    by (cases r)
  obtain d m0
    where g: "get_or_create_stream m (str_join ''-'' [subsite, node, sensor]) f5 f4 = (d, m0)"
    by (cases "get_or_create_stream m (str_join ''-'' [subsite, node, sensor]) f5 f4")
  from cache_coherent_get_or_create_stream [OF coh, of "str_join ''-'' [subsite, node, sensor]" f5 f4] g
  have m0: "cache_coherent m0"
    by simp
  then have "cache_coherent (m0\<lparr>session := add_counts (session m0) c\<rparr>)" for c
    by (simp add: cache_coherent_def find_stream_add_counts)
  with m0 run r g show ?thesis
    by (auto simp: counts_from_row.simps Let_def split: sum.splits if_splits)
qed

lemma cache_coherent_counts_from_rows:
  "cache_coherent m \<Longrightarrow> counts_from_rows m rows = Inr m1 \<Longrightarrow> cache_coherent m1"
proof (induction rows arbitrary: m)
  case Nil
  then show ?case by simp
next
  case (Cons r rows)
  from Cons.prems(2) obtain m0
    where step: "counts_from_row m r = Inr m0" and rest: "counts_from_rows m0 rows = Inr m1"
    by (auto split: sum.splits)
  from cache_coherent_counts_from_row [OF Cons.prems(1) step] rest show ?case
    by (rule Cons.IH)
qed




text \<open>
  C2.  The rows of the bulk query carry the stream name in the fourth field and the
  method in the fifth.  Evaluated on the row
  \<^verbatim>\<open>("A", "B", "C", "st1", "telemetered", 100, 2208988810)\<close> and an empty store,
  \<open>counts_from_rows\<close> creates the expected stream named \<^verbatim>\<open>telemetered\<close> with the method
  \<^verbatim>\<open>st1\<close>: the fifth field as the name, the fourth as the method.
\<close>

theorem bulk_row_stream_and_method_swapped:
  "counts_from_rows fresh_monitor [(''A'', ''B'', ''C'', ''st1'', ''telemetered'', 100, 2208988810)] =
     Inr \<lparr>session =
            \<lparr>reference_designators = [\<lparr>rd_name = ''A-B-C''\<rparr>],
             expected_streams =
               [\<lparr>es_name = ''telemetered'', es_method = ''st1'', es_rate = None,
                 warn_interval = None, fail_interval = None\<rparr>],
             deployed_streams = [\<lparr>ref_des = 0, expected_stream = 0\<rparr>],
             counts = [\<lparr>stream = 0, particle_count = 100, timestamp = datetime 1970 1 1 + 10\<rparr>]\<rparr>,
          cache = [((''A-B-C'', ''telemetered'', ''st1''), 0)]\<rparr>"
  by (simp add: counts_from_row_first_row)

lemma get_or_create_stream_fresh_monitor:
  "get_or_create_stream fresh_monitor (str_join ''-'' [''A'', ''B'', ''C'']) ''telemetered'' ''st1''
     = (0, \<lparr>session =
             \<lparr>reference_designators = [\<lparr>rd_name = ''A-B-C''\<rparr>],
              expected_streams =
                [\<lparr>es_name = ''telemetered'', es_method = ''st1'', es_rate = None,
                  warn_interval = None, fail_interval = None\<rparr>],
              deployed_streams = [\<lparr>ref_des = 0, expected_stream = 0\<rparr>],
              counts = []\<rparr>,
           cache = [((''A-B-C'', ''telemetered'', ''st1''), 0)]\<rparr>)"
  by (simp add: run_defs)

text \<open>
  C8.  The offset of line 30 is 2208988800 seconds, and the source timestamp
  2208988800 is converted to 1970-01-01T00:00:00.  Ingesting a row whose converted
  timestamp lies in the years 1 to 9999 returns, and when the row is stored (the resolved
  stream has no \<open>Counts\<close> yet or its most recent count differs) the stored
  \<open>Counts\<close> carries the instant that lies the row's source timestamp minus 2208988800
  seconds after 1970-01-01T00:00:00.  For any other source timestamp the conversion
  raises \<^verbatim>\<open>ValueError\<close> and nothing is stored.
\<close>

theorem epoch_conversion:
  assumes g: "get_or_create_stream m (str_join ''-'' [subsite, node, sensor]) f5 f4 = (d, m0)"
  shows "ntp_epoch_offset = 2208988800
   \<and> utcfromtimestamp (2208988800 - ntp_epoch_offset) = Inr (datetime 1970 1 1)
   \<and> (datetime 1 1 1 \<le> datetime 1970 1 1 + (ntp_timestamp - 2208988800)
        \<and> datetime 1970 1 1 + (ntp_timestamp - 2208988800) < datetime 9999 12 31 + 86400 \<longrightarrow>
        (\<exists>m1. counts_from_row m (subsite, node, sensor, f4, f5, count, ntp_timestamp) = Inr m1
           \<and> counts (session m1) = counts (session m) @
               (if (case get_last_count (session m) d of None \<Rightarrow> True
                    | Some lc \<Rightarrow> particle_count lc \<noteq> count)
                then [\<lparr>stream = d, particle_count = count,
                       timestamp = datetime 1970 1 1 + (ntp_timestamp - 2208988800)\<rparr>]
                else [])))
   \<and> (\<not> (datetime 1 1 1 \<le> datetime 1970 1 1 + (ntp_timestamp - 2208988800)
           \<and> datetime 1970 1 1 + (ntp_timestamp - 2208988800) < datetime 9999 12 31 + 86400) \<longrightarrow>
        counts_from_row m (subsite, node, sensor, f4, f5, count, ntp_timestamp) = Inl ValueError)"
proof -
  let ?ts = "datetime 1970 1 1 + (ntp_timestamp - 2208988800)"
  have a: "utcfromtimestamp (2208988800 - ntp_epoch_offset) = Inr (datetime 1970 1 1)"
    by (simp add: ntp_epoch_offset_value utcfromtimestamp_def date_defs)
  have m0: "counts (session m0) = counts (session m)"
    using counts_get_or_create_stream [of m "str_join ''-'' [subsite, node, sensor]" f5 f4] g
    by simp
  have b: "\<exists>m1. counts_from_row m (subsite, node, sensor, f4, f5, count, ntp_timestamp) = Inr m1
           \<and> counts (session m1) = counts (session m) @
               (if (case get_last_count (session m) d of None \<Rightarrow> True
                    | Some lc \<Rightarrow> particle_count lc \<noteq> count)
                then [\<lparr>stream = d, particle_count = count, timestamp = ?ts\<rparr>]
                else [])"
    if "datetime 1 1 1 \<le> ?ts" and "?ts < datetime 9999 12 31 + 86400"
  proof -
    from that have ts: "utcfromtimestamp (ntp_timestamp - ntp_epoch_offset) = Inr ?ts"
      by (simp add: utcfromtimestamp_def ntp_epoch_offset_value Let_def)
    from counts_from_row_eq [OF ts g, of count] m0 show ?thesis
      by (simp add: add_counts_def)
  qed
  have c: "counts_from_row m (subsite, node, sensor, f4, f5, count, ntp_timestamp) = Inl ValueError"
    if "\<not> (datetime 1 1 1 \<le> ?ts \<and> ?ts < datetime 9999 12 31 + 86400)"
  proof -
    from that have "utcfromtimestamp (ntp_timestamp - ntp_epoch_offset) = Inl ValueError"
      by (simp add: utcfromtimestamp_def ntp_epoch_offset_value Let_def)
    then show ?thesis
      by (simp add: counts_from_row.simps)
  qed
  from ntp_epoch_offset_value a b c show ?thesis by blast
qed

theorem epoch_conversion_witness:
  "(\<exists>m1. counts_from_row fresh_monitor
            (''A'', ''B'', ''C'', ''st1'', ''telemetered'', 100, 2208988800) = Inr m1
         \<and> counts (session m1)
             = [\<lparr>stream = 0, particle_count = 100, timestamp = datetime 1970 1 1\<rparr>])
   \<and> (\<exists>m1. counts_from_row fresh_monitor
            (''A'', ''B'', ''C'', ''st1'', ''telemetered'', 100, 2208988810) = Inr m1
         \<and> counts (session m1)
             = [\<lparr>stream = 0, particle_count = 100, timestamp = datetime 1970 1 1 + 10\<rparr>])
   \<and> counts_from_row fresh_monitor
        (''A'', ''B'', ''C'', ''st1'', ''telemetered'', 100, 400000000000) = Inl ValueError"
proof -
  have none: "get_last_count (session fresh_monitor) 0 = None"
    and empty: "counts (session fresh_monitor) = []"
    by (simp_all add: run_defs)
  have r0: "datetime 1 1 1 \<le> datetime 1970 1 1 + (2208988800 - 2208988800)
        \<and> datetime 1970 1 1 + (2208988800 - 2208988800) < datetime 9999 12 31 + 86400"
    and r10: "datetime 1 1 1 \<le> datetime 1970 1 1 + (2208988810 - 2208988800)
        \<and> datetime 1970 1 1 + (2208988810 - 2208988800) < datetime 9999 12 31 + 86400"
    and out: "\<not> (datetime 1 1 1 \<le> datetime 1970 1 1 + (400000000000 - 2208988800)
        \<and> datetime 1970 1 1 + (400000000000 - 2208988800) < datetime 9999 12 31 + 86400)"
    by (simp_all add: date_defs)
  from epoch_conversion [OF get_or_create_stream_fresh_monitor,
      where ntp_timestamp = 2208988800 and count = 100, THEN conjunct2, THEN conjunct2,
      THEN conjunct1] r0 none empty
  have 1: "\<exists>m1. counts_from_row fresh_monitor
            (''A'', ''B'', ''C'', ''st1'', ''telemetered'', 100, 2208988800) = Inr m1
         \<and> counts (session m1)
             = [\<lparr>stream = 0, particle_count = 100, timestamp = datetime 1970 1 1\<rparr>]"
    by simp
  from epoch_conversion [OF get_or_create_stream_fresh_monitor,
      where ntp_timestamp = 2208988810 and count = 100, THEN conjunct2, THEN conjunct2,
      THEN conjunct1] r10 none empty
  have 2: "\<exists>m1. counts_from_row fresh_monitor
            (''A'', ''B'', ''C'', ''st1'', ''telemetered'', 100, 2208988810) = Inr m1
         \<and> counts (session m1)
             = [\<lparr>stream = 0, particle_count = 100, timestamp = datetime 1970 1 1 + 10\<rparr>]"
    by simp
  from epoch_conversion [OF get_or_create_stream_fresh_monitor,
      where ntp_timestamp = 400000000000 and count = 100, THEN conjunct2, THEN conjunct2,
      THEN conjunct2] out
  have 3: "counts_from_row fresh_monitor
        (''A'', ''B'', ''C'', ''st1'', ''telemetered'', 100, 400000000000) = Inl ValueError"
    by blast
  from 1 2 3 show ?thesis by blast
qed

subsection \<open>The per-stream collector\<close>






lemma create_counts_Inr:
  "create_counts requests_get host port db d = Inr (c, db1) \<Longrightarrow>
   db1 = add_counts db c \<and> stream c = d
   \<and> query_api requests_get host port db d = Inr (JNum (particle_count c), JNum (timestamp c))"
  by (auto simp: create_counts_def Let_def split: sum.splits prod.splits jvalue.splits)

lemma create_counts_numeric:
  "query_api requests_get host port db d = Inr (JNum count, JNum ts) \<Longrightarrow>
   create_counts requests_get host port db d =
     Inr (\<lparr>stream = d, particle_count = count, timestamp = ts\<rparr>,
          add_counts db \<lparr>stream = d, particle_count = count, timestamp = ts\<rparr>)"
  by (simp add: create_counts_def Let_def)



text \<open>An exception of \<^verbatim>\<open>requests.get\<close> itself is not caught: it leaves \<open>query_api\<close>
  and with it the loop of \<open>gather_all\<close>.\<close>

lemma query_api_request_raises:
  assumes "ref_des_of db d = Some rd"
    and "parse_reference_designator (rd_name rd) = Inr (subsite, node, sensor)"
    and "expected_stream_of db d = Some es"
    and "requests_get (EDEX_BASE_URL host port subsite node sensor @ ''/metadata/times'') = Inl e"
  shows "query_api requests_get host port db d = Inl e"
    and "create_counts_each requests_get host port db (d # ds) = Inl e"
  using assms by (simp_all add: query_api_def create_counts_def)

lemmas uframe_defs = query_api_def ref_des_of_def expected_stream_of_def nth_opt_def
  one_stream_def parse_reference_designator_def EDEX_BASE_URL_def str_nat.simps
  uframe_service_def unavailable_service_def entry_def





subsection \<open>Deduplication and monotone counts in the two collectors\<close>







text \<open>
  C9 as stated fails: after the count 100, the bulk collector reports the count 50 with
  a later timestamp for the same stream; ingestion appends it, and the counts of the
  stream are no longer monotone.
\<close>

theorem ingestion_appends_lower_count:
  "monotone_counts (session after_first_row)
   \<and> counts_from_row after_first_row (''A'', ''B'', ''C'', ''st1'', ''telemetered'', 50, 2208988820)
     = Inr (after_first_row\<lparr>session := add_counts (session after_first_row)
              \<lparr>stream = 0, particle_count = 50, timestamp = datetime 1970 1 1 + 20\<rparr>\<rparr>)
   \<and> \<not> monotone_counts (add_counts (session after_first_row)
              \<lparr>stream = 0, particle_count = 50, timestamp = datetime 1970 1 1 + 20\<rparr>)"
proof -
  have 2: "counts_from_row after_first_row (''A'', ''B'', ''C'', ''st1'', ''telemetered'', 50, 2208988820)
     = Inr (after_first_row\<lparr>session := add_counts (session after_first_row)
              \<lparr>stream = 0, particle_count = 50, timestamp = datetime 1970 1 1 + 20\<rparr>\<rparr>)"
    using counts_from_row_eq [OF utcfromtimestamp_example get_or_create_stream_after_first_row, of 50]
    by (simp add: get_last_count_after_first_row)
  have 3: "\<not> monotone_counts (add_counts (session after_first_row)
              \<lparr>stream = 0, particle_count = 50, timestamp = datetime 1970 1 1 + 20\<rparr>)"
    by (simp add: monotone_counts_def add_counts_def after_first_row_def)
  from monotone_after_first_row 2 3 show ?thesis by blast
qed

text \<open>
  C9, amended.  Ingestion does not compare the order of counts.  An ingest preserves
  the monotone invariant when the observation's count is not lower than the stream's
  most recent count and its timestamp is later than the stream's most recent timestamp
  (or the stream has no \<open>Counts\<close> yet), for a row of the bulk collector and for a row
  created by the per-stream collector.  A row of the bulk collector whose count is lower
  than the stream's most recent count is appended.
\<close>

theorem monotone_preserved_by_increasing_rows:
  assumes ts: "utcfromtimestamp (ntp_timestamp - ntp_epoch_offset) = Inr ts"
    and g: "get_or_create_stream m (str_join ''-'' [subsite, node, sensor]) f5 f4 = (d, m0)"
  shows "(monotone_counts (session m)
          \<and> (case get_last_count (session m) d of
                None \<Rightarrow> True
              | Some lc \<Rightarrow> particle_count lc \<le> count \<and> timestamp lc < ts) \<longrightarrow>
            (\<exists>m1. counts_from_row m (subsite, node, sensor, f4, f5, count, ntp_timestamp) = Inr m1
                  \<and> monotone_counts (session m1)))
     \<and> (\<forall>lc. get_last_count (session m) d = Some lc \<and> count < particle_count lc \<longrightarrow>
            (\<exists>m1. counts_from_row m (subsite, node, sensor, f4, f5, count, ntp_timestamp) = Inr m1
                  \<and> counts (session m1) = counts (session m) @
                      [\<lparr>stream = d, particle_count = count, timestamp = ts\<rparr>]))
     \<and> (monotone_counts db \<and> create_counts requests_get host port db d' = Inr (c, db1)
          \<and> (case get_last_count db d' of
                None \<Rightarrow> True
              | Some lc \<Rightarrow> particle_count lc \<le> particle_count c \<and> timestamp lc < timestamp c) \<longrightarrow>
            monotone_counts db1)"
proof -
  let ?new = "\<lparr>stream = d, particle_count = count, timestamp = ts\<rparr>"
  have m0: "counts (session m0) = counts (session m)"
    using counts_get_or_create_stream [of m "str_join ''-'' [subsite, node, sensor]" f5 f4] g
    by simp
  have mono_cong: "monotone_counts db2 = monotone_counts db3" if "counts db2 = counts db3" for db2 db3
    using that by (simp add: monotone_counts_def)
  have A: "\<exists>m1. counts_from_row m (subsite, node, sensor, f4, f5, count, ntp_timestamp) = Inr m1
                  \<and> monotone_counts (session m1)"
    if mono: "monotone_counts (session m)"
      and later: "case get_last_count (session m) d of
                None \<Rightarrow> True
              | Some lc \<Rightarrow> particle_count lc \<le> count \<and> timestamp lc < ts"
  proof -
    have "monotone_counts (session m0)"
      using mono mono_cong [OF m0] by simp
    moreover have "monotone_counts (add_counts (session m0) ?new)"
    proof (rule monotone_add_counts)
      show "monotone_counts (session m0)" by fact
      show "case get_last_count (session m0) (stream ?new) of
              None \<Rightarrow> True
            | Some lc \<Rightarrow> particle_count lc \<le> particle_count ?new \<and> timestamp lc < timestamp ?new"
        using later get_last_count_cong [OF m0, of d] by (simp split: option.splits)
    qed
    ultimately show ?thesis
      using counts_from_row_eq [OF ts g, of count] by simp
  qed
  have B: "\<exists>m1. counts_from_row m (subsite, node, sensor, f4, f5, count, ntp_timestamp) = Inr m1
                  \<and> counts (session m1) = counts (session m) @ [?new]"
    if "get_last_count (session m) d = Some lc" "count < particle_count lc" for lc
    using counts_from_row_eq [OF ts g, of count] that m0 by (simp add: add_counts_def)
  have C: "monotone_counts db1"
    if mono: "monotone_counts db"
      and run: "create_counts requests_get host port db d' = Inr (c, db1)"
      and later: "case get_last_count db d' of
                None \<Rightarrow> True
              | Some lc \<Rightarrow> particle_count lc \<le> particle_count c \<and> timestamp lc < timestamp c"
  proof -
    from create_counts_Inr [OF run] have "db1 = add_counts db c" "stream c = d'"
      by simp_all
    with monotone_add_counts [OF mono, of c] later show ?thesis
      by simp
  qed
  from A B C show ?thesis by blast
qed

theorem monotone_preserved_by_increasing_rows_witness:
  "(\<exists>m1. counts_from_row after_first_row (''A'', ''B'', ''C'', ''st1'', ''telemetered'', 110, 2208988820)
            = Inr m1 \<and> monotone_counts (session m1))
   \<and> (\<exists>m1. counts_from_row after_first_row (''A'', ''B'', ''C'', ''st1'', ''telemetered'', 50, 2208988820)
            = Inr m1
          \<and> counts (session m1) = counts (session after_first_row) @
              [\<lparr>stream = 0, particle_count = 50, timestamp = datetime 1970 1 1 + 20\<rparr>])
   \<and> monotone_counts (one_stream None None [\<lparr>stream = 0, particle_count = 5, timestamp = 100\<rparr>,
                                             \<lparr>stream = 0, particle_count = 9, timestamp = 200\<rparr>])"
proof -
  let ?db = "one_stream None None [\<lparr>stream = 0, particle_count = 5, timestamp = 100\<rparr>]"
  let ?svc = "uframe_service [entry ''st1'' ''telemetered'' 9 200]"
  let ?c = "\<lparr>stream = 0, particle_count = 9, timestamp = 200\<rparr>"
  have later: "case get_last_count (session after_first_row) 0 of
                None \<Rightarrow> True
              | Some lc \<Rightarrow> particle_count lc \<le> 110 \<and> timestamp lc < datetime 1970 1 1 + 20"
    by (simp add: get_last_count_after_first_row)
  have lower: "(50::int) < particle_count \<lparr>stream = 0, particle_count = 100,
                                          timestamp = datetime 1970 1 1 + 10\<rparr>"
    by simp
  have mono: "monotone_counts ?db"
    by (simp add: monotone_counts_def one_stream_def)
  have q: "query_api ?svc ''uframe'' 12576 ?db 0 = Inr (JNum 9, JNum 200)"
    by (simp add: uframe_defs)
  have run: "create_counts ?svc ''uframe'' 12576 ?db 0 = Inr (?c, add_counts ?db ?c)"
    using create_counts_numeric [OF q] .
  have later': "case get_last_count ?db 0 of
                None \<Rightarrow> True
              | Some lc \<Rightarrow> particle_count lc \<le> particle_count ?c \<and> timestamp lc < timestamp ?c"
    by (simp add: get_last_count_def stream_counts_def order_by_timestamp_desc_def one_stream_def)
  have eq: "add_counts ?db ?c = one_stream None None [\<lparr>stream = 0, particle_count = 5, timestamp = 100\<rparr>, ?c]"
    by (simp add: add_counts_def one_stream_def)
  from monotone_preserved_by_increasing_rows [OF utcfromtimestamp_example
      get_or_create_stream_after_first_row, where count = 110 and db = ?db and requests_get = ?svc
      and host = "''uframe''" and port = 12576 and d' = 0 and c = ?c and ?db1.0 = "add_counts ?db ?c"]
    monotone_after_first_row later mono run later'
  have 1: "\<exists>m1. counts_from_row after_first_row (''A'', ''B'', ''C'', ''st1'', ''telemetered'', 110, 2208988820)
            = Inr m1 \<and> monotone_counts (session m1)"
    and 3: "monotone_counts (add_counts ?db ?c)"
    by blast+
  from monotone_preserved_by_increasing_rows [OF utcfromtimestamp_example
      get_or_create_stream_after_first_row, where count = 50]
    get_last_count_after_first_row lower
  have 2: "\<exists>m1. counts_from_row after_first_row (''A'', ''B'', ''C'', ''st1'', ''telemetered'', 50, 2208988820)
            = Inr m1
          \<and> counts (session m1) = counts (session after_first_row) @
              [\<lparr>stream = 0, particle_count = 50, timestamp = datetime 1970 1 1 + 20\<rparr>]"
    by blast
  from 1 2 3 eq show ?thesis by simp
qed

subsection \<open>Reference designators\<close>

lemma split_maxsplit_field:
  "sep \<notin> set s \<Longrightarrow> split_maxsplit sep (Suc n) (s @ sep # rest) = s # split_maxsplit sep n rest"
proof -
  assume "sep \<notin> set s"
  then have all: "\<And>x. x \<in> set s \<Longrightarrow> x \<noteq> sep"
    by blast
  have "dropWhile (\<lambda>c. c \<noteq> sep) (s @ sep # rest) = sep # rest"
    using all by (simp add: dropWhile_append2)
  moreover have "takeWhile (\<lambda>c. c \<noteq> sep) (s @ sep # rest) = s"
    using all by simp
  ultimately show ?thesis by simp
qed

text \<open>
  C10.  For a subsite and a node without a dash and any sensor, which may contain
  dashes, \<open>parse_reference_designator\<close> applied to the three joined by dashes returns
  the three.
\<close>

theorem parse_join_round_trip:
  "CHR ''-'' \<notin> set subsite \<Longrightarrow> CHR ''-'' \<notin> set node \<Longrightarrow>
   parse_reference_designator (str_join ''-'' [subsite, node, sensor]) = Inr (subsite, node, sensor)"
  by (simp add: parse_reference_designator_def split_maxsplit_field del: split_maxsplit.simps(2))

theorem parse_join_round_trip_witness:
  "parse_reference_designator (str_join ''-'' [''RS01SBPS'', ''SF01A'', ''2A-CTDPFA102'']) =
     Inr (''RS01SBPS'', ''SF01A'', ''2A-CTDPFA102'')"
  using parse_join_round_trip [of "''RS01SBPS''" "''SF01A''" "''2A-CTDPFA102''"]
  by simp

end
